theory Spec2Isabelle
  imports Main
begin

section \<open>Python values used by \<open>evennia/contrib/collab/typeclasses.py\<close>\<close>

text \<open>
  Objects are identified by a number (the database id of a typeclassed object, or the
  serial number of an object allocated at run time). \<open>None\<close> is the \<open>None\<close> of
  \<open>option\<close>; an object reference is always true in a Python condition.
\<close>

type_synonym objref = nat

datatype exn = Exception string | TypeError string | AttributeError string

fun exn_message :: "exn \<Rightarrow> string" where
  "exn_message (Exception m) = m"
| "exn_message (TypeError m) = m"
| "exn_message (AttributeError m) = m"

text \<open>Python's \<open>sub in s\<close> on strings.\<close>

fun starts_with :: "string \<Rightarrow> string \<Rightarrow> bool" where
  "starts_with [] s = True"
| "starts_with (c # cs) [] = False"
| "starts_with (c # cs) (d # ds) = (c = d \<and> starts_with cs ds)"

fun py_in :: "string \<Rightarrow> string \<Rightarrow> bool" where
  "py_in sub [] = (sub = [])"
| "py_in sub (c # cs) = (starts_with sub (c # cs) \<or> py_in sub cs)"

text \<open>\<open>sep.join(xs)\<close>.\<close>

fun py_join :: "string \<Rightarrow> string list \<Rightarrow> string" where
  "py_join sep [] = []"
| "py_join sep [x] = x"
| "py_join sep (x # y # ys) = x @ sep @ py_join sep (y # ys)"

text \<open>
  The stored key of an object is a text string: a list of code points. \<open>strip()\<close>
  drops the leading and the trailing characters that the interpreter's character
  database classes as whitespace, and \<open>lower()\<close> replaces every character by its
  lowercase in that database. The database is not part of the source: the whitespace
  test and the lowercase mapping are arguments here, supplied by the collaborators
  below.
\<close>

type_synonym codepoint = nat
type_synonym unicode = "codepoint list"

definition py_strip :: "(codepoint \<Rightarrow> bool) \<Rightarrow> unicode \<Rightarrow> unicode" where
  "py_strip space s = rev (dropWhile space (rev (dropWhile space s)))"

definition py_lower :: "(codepoint \<Rightarrow> codepoint) \<Rightarrow> unicode \<Rightarrow> unicode" where
  "py_lower lower s = map lower s"

text \<open>Decimal rendering of \<open>%d\<close>.\<close>

fun show_nat :: "nat \<Rightarrow> string" where
  "show_nat n =
     (if n < 10 then [char_of (48 + n)] else show_nat (n div 10) @ [char_of (48 + n mod 10)])"

declare show_nat.simps [simp del]

section \<open>Entities and the collaborators outside this module\<close>

text \<open>
  The attributes of a typeclassed object that this module reads. \<open>owner\<close> is what
  \<open>get_owner(self)\<close> returns, \<open>db_desc\<close> is \<open>self.db.desc\<close>,
  \<open>wizdb_exit_priority\<close> is \<open>self.wizdb.exit_priority\<close> (a missing attribute reads as
  \<open>None\<close>), \<open>locks\<close> is \<open>str(self.locks)\<close>, \<open>aliases\<close> is \<open>self.aliases.all()\<close>,
  and \<open>has_create_exit_cmdset\<close> is \<open>hasattr(self, 'create_exit_cmdset')\<close>.
  \<open>destination\<close> is the property over \<open>db_destination\<close>.
\<close>

record entity =
  dbref :: objref
  db_key :: unicode
  aliases :: "string list"
  locks :: string
  db_destination :: "objref option"
  location :: "objref option"
  owner :: "objref option"
  db_desc :: "string option"
  has_player :: bool
  wizdb_exit_priority :: "int option"
  has_create_exit_cmdset :: bool

text \<open>
  What \<open>self.tags.get(category=...)\<close> hands back: nothing, one bare tag or a list of
  tags. The source tests the value's truth and passes it through \<open>make_iter\<close>.
\<close>

datatype tagval = TagNone | TagStr string | TagList "string list"

fun py_truth :: "tagval \<Rightarrow> bool" where
  "py_truth TagNone = False"
| "py_truth (TagStr s) = (s \<noteq> [])"
| "py_truth (TagList l) = (l \<noteq> [])"

text \<open>
  \<open>make_iter\<close> is imported from \<open>evennia.utils\<close>: it wraps a value that is not
  iterable in a one-element list and returns a list as it is. The source calls it on a
  true value only, so the \<open>None\<close> case is never evaluated.
\<close>

fun make_iter :: "tagval \<Rightarrow> string list" where
  "make_iter TagNone = []"
| "make_iter (TagStr s) = [s]"
| "make_iter (TagList l) = l"

text \<open>The arguments of one call of the template evaluator \<open>evtemplate\<close>.\<close>

record evt_call =
  evt_text :: string
  evt_run_as :: "objref option"
  evt_me :: entity
  evt_this :: entity
  evt_how :: string

text \<open>
  The functions this module imports or calls on other objects:
  \<open>collab_check(owner, location, locks=...)\<close>, \<open>evtemplate(...)\<close>,
  \<open>con.access(looker, access_type)\<close>, \<open>obj.get_display_name(looker)\<close>,
  \<open>obj.contents\<close>, \<open>obj.tags.get(category=...)\<close> and
  \<open>search_object_by_tag(category=..., key=...)\<close>; and the two tables of the character
  database behind \<open>strip()\<close> and \<open>lower()\<close>: \<open>isspace\<close>, which code points are
  whitespace, and \<open>tolower\<close>, the lowercase of each code point.
\<close>

record externals =
  collab_check :: "objref \<Rightarrow> objref option \<Rightarrow> string list \<Rightarrow> bool"
  evtemplate :: "evt_call \<Rightarrow> string"
  access :: "entity \<Rightarrow> entity \<Rightarrow> string \<Rightarrow> bool"
  get_display_name :: "entity \<Rightarrow> entity \<Rightarrow> string"
  contents_of :: "entity \<Rightarrow> entity list"
  tags_get :: "entity \<Rightarrow> string \<Rightarrow> tagval"
  search_object_by_tag :: "string \<Rightarrow> string \<Rightarrow> entity list"
  isspace :: "codepoint \<Rightarrow> bool"
  tolower :: "codepoint \<Rightarrow> codepoint"

section \<open>Commands and command sets\<close>

text \<open>The keyword arguments \<open>create_exit_cmdset\<close> gives to \<open>self.exit_command\<close>.\<close>

record command =
  cmd_key :: unicode
  cmd_aliases :: "string list"
  cmd_locks :: string
  cmd_auto_help :: bool
  cmd_destination :: "objref option"
  cmd_arg_regex :: string
  cmd_is_exit :: bool
  cmd_obj :: objref

text \<open>
  Modelled from the spec: class \<open>CmdSet\<close> (\<open>evennia.commands.cmdset\<close>) is not in
  the source file. A command set is a capability bundle that accepts what is added to it;
  it is represented by the object it was constructed for, the attributes this module
  assigns to it (an attribute it never assigns stays at the class default) and the
  sequence of the arguments of its \<open>add\<close> calls, in call order. A command set object
  is true in a condition.
\<close>

datatype 'a slot = ClassDefault | Assigned 'a

record 'a cmdset =
  cmdsetobj :: "objref option"
  key :: "string slot"
  priority :: "int option slot"
  duplicates :: "bool slot"
  added :: "'a list"

type_synonym exit_cmdset = "command cmdset"
type_synonym zone_cmdset = "exit_cmdset option cmdset"

definition CmdSet :: "objref option \<Rightarrow> 'a cmdset" where
  "CmdSet obj = \<lparr>cmdsetobj = obj, key = ClassDefault, priority = ClassDefault,
                 duplicates = ClassDefault, added = []\<rparr>"

definition cmdset_add :: "'a cmdset \<Rightarrow> 'a \<Rightarrow> 'a cmdset" where
  "cmdset_add cs x = cs\<lparr>added := added cs @ [x]\<rparr>"

section \<open>\<open>CollabExit\<close>\<close>

definition CollabExit_priority :: int where
  "CollabExit_priority = - 30"

definition create_exit_cmdset ::
  "externals \<Rightarrow> entity \<Rightarrow> entity \<Rightarrow> objref option \<Rightarrow> exit_cmdset option" where
  "create_exit_cmdset ext self exidbobj location_arg =
     (let location' = (case location_arg of Some l \<Rightarrow> Some l | None \<Rightarrow> location self);
          denied = (case owner self of
                      None \<Rightarrow> False
                    | Some o' \<Rightarrow> \<not> collab_check ext o' location' [''open_exit''])
      in if denied then None
         else
           let cmd = \<lparr>cmd_key = py_lower (tolower ext)
                                  (py_strip (isspace ext) (db_key exidbobj)),
                      cmd_aliases = aliases exidbobj,
                      cmd_locks = locks exidbobj,
                      cmd_auto_help = False,
                      cmd_destination = db_destination exidbobj,
                      cmd_arg_regex = ''^$'',
                      cmd_is_exit = True,
                      cmd_obj = dbref exidbobj\<rparr>;
               exit_cmdset = CmdSet None;
               exit_cmdset = exit_cmdset\<lparr>key := Assigned ''ExitCmdSet''\<rparr>;
               priority' = (if wizdb_exit_priority self \<noteq> None
                            then Some CollabExit_priority
                            else wizdb_exit_priority self);
               exit_cmdset = exit_cmdset\<lparr>priority := Assigned priority'\<rparr>;
               exit_cmdset = exit_cmdset\<lparr>duplicates := Assigned True\<rparr>;
               exit_cmdset = cmdset_add exit_cmdset cmd
           in Some exit_cmdset)"

section \<open>\<open>CollabBase.return_appearance\<close>\<close>

text \<open>
  The loop over the visible contents, with the three lists it appends to. An item is
  tested for a destination first; \<open>has_player\<close> is looked at in the \<open>elif\<close> only.
\<close>

fun classify ::
  "externals \<Rightarrow> entity \<Rightarrow> entity list \<Rightarrow> string list \<times> string list \<times> string list
     \<Rightarrow> string list \<times> string list \<times> string list" where
  "classify ext looker [] (exits, users, things) = (exits, users, things)"
| "classify ext looker (con # cons) (exits, users, things) =
     (let key = get_display_name ext con looker
      in if db_destination con \<noteq> None
         then classify ext looker cons (exits @ [key], users, things)
         else if has_player con
         then classify ext looker cons (exits, users @ [''{c'' @ key @ ''{n''], things)
         else classify ext looker cons (exits, users, things @ [key]))"

definition visible_contents :: "externals \<Rightarrow> entity \<Rightarrow> entity \<Rightarrow> entity list" where
  "visible_contents ext self looker =
     filter (\<lambda>con. dbref con \<noteq> dbref looker \<and> access ext con looker ''view'')
       (contents_of ext self)"

definition desc_call :: "entity \<Rightarrow> entity \<Rightarrow> evt_call" where
  "desc_call self looker =
     \<lparr>evt_text = (case db_desc self of None \<Rightarrow> [] | Some d \<Rightarrow> d),
      evt_run_as = owner self,
      evt_me = looker,
      evt_this = self,
      evt_how = ''desc''\<rparr>"

text \<open>
  One call of the template evaluator: the text it returns, and the log of the calls made
  so far with this call at its end.
\<close>

definition call_evtemplate ::
  "externals \<Rightarrow> evt_call \<Rightarrow> evt_call list \<Rightarrow> string \<times> evt_call list" where
  "call_evtemplate ext call log = (evtemplate ext call, log @ [call])"

text \<open>
  The result is the returned value (\<open>None\<close> for the bare \<open>return\<close>) together with the
  log of the calls of the template evaluator made on the way, in order.
\<close>

definition return_appearance ::
  "externals \<Rightarrow> entity \<Rightarrow> entity option \<Rightarrow> string option \<times> evt_call list" where
  "return_appearance ext self looker_arg =
     (case looker_arg of
        None \<Rightarrow> (None, [])
      | Some looker \<Rightarrow>
          (let visible = visible_contents ext self looker;
               (exits, users, things) = classify ext looker visible ([], [], []);
               string = ''{c'' @ get_display_name ext self looker @ ''{n'' @ [CHR 0x0A];
               (desc, calls) = call_evtemplate ext (desc_call self looker) [];
               string = (if desc \<noteq> [] then string @ desc else string);
               string = (if exits \<noteq> []
                         then string @ [CHR 0x0A] @ ''{wExits:{n '' @ py_join '', '' exits
                         else string);
               string = (if users \<noteq> [] \<or> things \<noteq> []
                         then string @ [CHR 0x0A] @ ''{wYou see:{n ''
                                @ py_join '', '' (users @ things)
                         else string)
           in (Some string, calls)))"

section \<open>The namespace descriptors\<close>

text \<open>The \<open>_attrtype\<close> of the six handler classes, in the order of \<open>initializers\<close>.\<close>

definition initializers :: "string list" where
  "initializers = [''wizh'', ''wiz'', ''imh'', ''pub'', ''usr'', ''usrh'']"

text \<open>
  A value an attribute can hold: \<open>PyRef\<close> is a reference to a \<open>DbHolder\<close> object on
  the heap, \<open>PyHandler\<close> an attribute handler of the given \<open>_attrtype\<close>.
\<close>

datatype pyvalue = PyNone | PyInt int | PyStr string | PyRef nat | PyHandler string

text \<open>
  A \<open>DbHolder(obj, name, manager_name=...)\<close> as constructed by the getter; an
  instance with its attribute dictionary and the holders allocated for it (a reference
  is the position in \<open>holders\<close>).
\<close>

record dbholder =
  holder_name :: string
  holder_manager_name :: string

record pyobject =
  attrs :: "string \<rightharpoonup> pyvalue"
  holders :: "dbholder list"

text \<open>
  A Python function: its name, the number of its positional parameters (\<open>self\<close>
  included) and its body, run on \<open>self\<close> and the remaining arguments. A call with another
  number of arguments raises \<open>TypeError\<close> before the body runs; the interpreter's
  message names the function and the two counts.
\<close>

record pyfunction =
  fn_name :: string
  fn_params :: nat
  fn_body :: "pyobject \<Rightarrow> pyvalue list \<Rightarrow> exn + pyvalue \<times> pyobject"

definition arity_error :: "string \<Rightarrow> nat \<Rightarrow> nat \<Rightarrow> exn" where
  "arity_error name n given =
     TypeError (name @ ''() takes exactly '' @ show_nat n @ '' argument''
                @ (if n = 1 then [] else ''s'') @ '' ('' @ show_nat given @ '' given)'')"

definition py_call ::
  "pyfunction \<Rightarrow> pyobject \<Rightarrow> pyvalue list \<Rightarrow> exn + pyvalue \<times> pyobject" where
  "py_call f self args =
     (if Suc (length args) = fn_params f then fn_body f self args
      else Inl (arity_error (fn_name f) (fn_params f) (Suc (length args))))"

text \<open>
  \<open>getattr\<close> and \<open>setattr\<close> on a holder slot \<open>_<key>_holder\<close>: the name is no
  attribute of the class, so the lookup goes to the instance dictionary and raises
  \<open>AttributeError\<close> when the name is missing.
\<close>

definition holder_slot :: "string \<Rightarrow> string" where
  "holder_slot key' = ''_'' @ key' @ ''_holder''"

definition py_getattr :: "pyobject \<Rightarrow> string \<Rightarrow> exn + pyvalue" where
  "py_getattr self name =
     (case attrs self name of
        None \<Rightarrow> Inl (AttributeError (''object has no attribute '' @ name))
      | Some v \<Rightarrow> Inr v)"

definition py_setattr :: "pyobject \<Rightarrow> string \<Rightarrow> pyvalue \<Rightarrow> pyobject" where
  "py_setattr self name v = self\<lparr>attrs := (attrs self)(name \<mapsto> v)\<rparr>"

definition DbHolder :: "pyobject \<Rightarrow> string \<Rightarrow> string \<Rightarrow> pyvalue \<times> pyobject" where
  "DbHolder self name manager_name =
     (PyRef (length (holders self)),
      self\<lparr>holders := holders self @ [\<lparr>holder_name = name, holder_manager_name = manager_name\<rparr>]\<rparr>)"

definition getter :: "string \<Rightarrow> string \<Rightarrow> pyfunction" where
  "getter key' name =
     \<lparr>fn_name = ''getter'', fn_params = 1,
      fn_body = (\<lambda>self args.
        case py_getattr self (holder_slot key') of
          Inr v \<Rightarrow> Inr (v, self)
        | Inl (AttributeError m) \<Rightarrow>
            (let (h, self) = DbHolder self name (key' @ ''attributes'');
                 self = py_setattr self (holder_slot key') h
             in case py_getattr self (holder_slot key') of
                  Inr v \<Rightarrow> Inr (v, self)
                | Inl e \<Rightarrow> Inl e)
        | Inl e \<Rightarrow> Inl e)\<rparr>"

definition setter :: "string \<Rightarrow> pyfunction" where
  "setter label =
     \<lparr>fn_name = ''setter'', fn_params = 1,
      fn_body = (\<lambda>self args.
        let string = ''Cannot assign directly to '' @ label @ '' object! '';
            string = string @ ''Use '' @ label @ ''.attr=value instead.''
        in Inl (Exception string))\<rparr>"

definition deleter :: "string \<Rightarrow> pyfunction" where
  "deleter label =
     \<lparr>fn_name = ''deleter'', fn_params = 1,
      fn_body = (\<lambda>self args. Inl (Exception (''Cannot delete the '' @ label @ '' object!'')))\<rparr>"

definition attributes :: "string \<Rightarrow> string \<Rightarrow> pyfunction" where
  "attributes init name =
     \<lparr>fn_name = name, fn_params = 1,
      fn_body = (\<lambda>self args. Inr (PyHandler init, self))\<rparr>"

definition make_descriptors ::
  "string \<Rightarrow> string \<Rightarrow> string \<Rightarrow> string
     \<Rightarrow> pyfunction \<times> pyfunction \<times> pyfunction \<times> pyfunction" where
  "make_descriptors init key' name label =
     (getter key' name, setter label, deleter label, attributes init name)"

text \<open>\<open>property(fget, fset, fdel)\<close> and the three ways Python uses it.\<close>

record property =
  fget :: pyfunction
  fset :: pyfunction
  fdel :: pyfunction

definition property_get :: "property \<Rightarrow> pyobject \<Rightarrow> exn + pyvalue \<times> pyobject" where
  "property_get p self = py_call (fget p) self []"

definition property_set :: "property \<Rightarrow> pyobject \<Rightarrow> pyvalue \<Rightarrow> exn + pyvalue \<times> pyobject" where
  "property_set p self v = py_call (fset p) self [v]"

definition property_delete :: "property \<Rightarrow> pyobject \<Rightarrow> exn + pyvalue \<times> pyobject" where
  "property_delete p self = py_call (fdel p) self []"

text \<open>
  The module-level loop: for each handler class, the label \<open>key + 'db'\<close> is bound on
  \<open>CollabBase\<close> to the property made of its getter, setter and deleter.
\<close>

definition CollabBase_properties :: "(string \<times> property) list" where
  "CollabBase_properties =
     map (\<lambda>init.
            let key' = init; name = init @ ''attributes''; label = key' @ ''db'';
                (g, s, d, a) = make_descriptors init key' name label
            in (label, \<lparr>fget = g, fset = s, fdel = d\<rparr>))
         initializers"

text \<open>
  Reading, assigning and deleting an attribute of an instance of a class that inherits
  \<open>CollabBase\<close> (all five typeclasses list it first): a property of the class decides;
  any other name goes to the instance dictionary.
\<close>

definition attr_read :: "pyobject \<Rightarrow> string \<Rightarrow> exn + pyvalue \<times> pyobject" where
  "attr_read self name =
     (case map_of CollabBase_properties name of
        Some p \<Rightarrow> property_get p self
      | None \<Rightarrow> (case py_getattr self name of Inl e \<Rightarrow> Inl e | Inr v \<Rightarrow> Inr (v, self)))"

definition attr_assign :: "pyobject \<Rightarrow> string \<Rightarrow> pyvalue \<Rightarrow> exn + pyvalue \<times> pyobject" where
  "attr_assign self name v =
     (case map_of CollabBase_properties name of
        Some p \<Rightarrow> property_set p self v
      | None \<Rightarrow> Inr (PyNone, py_setattr self name v))"

definition attr_delete :: "pyobject \<Rightarrow> string \<Rightarrow> exn + pyvalue \<times> pyobject" where
  "attr_delete self name =
     (case map_of CollabBase_properties name of
        Some p \<Rightarrow> property_delete p self
      | None \<Rightarrow>
          (case attrs self name of
             None \<Rightarrow> Inl (AttributeError name)
           | Some v \<Rightarrow> Inr (PyNone, self\<lparr>attrs := (attrs self)(name := None)\<rparr>)))"

section \<open>\<open>CollabRoom\<close>\<close>

fun collect_exits :: "externals \<Rightarrow> string list \<Rightarrow> entity list \<Rightarrow> entity list" where
  "collect_exits ext [] exits = exits"
| "collect_exits ext (tag # tags) exits =
     collect_exits ext tags (exits @ search_object_by_tag ext ''zone_exit'' tag)"

fun add_exits :: "externals \<Rightarrow> entity \<Rightarrow> entity list \<Rightarrow> zone_cmdset \<Rightarrow> zone_cmdset" where
  "add_exits ext self [] cmdset' = cmdset'"
| "add_exits ext self (exit # exits) cmdset' =
     (if db_destination exit \<noteq> None \<and> has_create_exit_cmdset exit
      then add_exits ext self exits
             (cmdset_add cmdset' (create_exit_cmdset ext exit exit (Some (dbref self))))
      else add_exits ext self exits cmdset')"

definition zone_exit_commandset :: "externals \<Rightarrow> entity \<Rightarrow> zone_cmdset" where
  "zone_exit_commandset ext self =
     (let exit_tags = tags_get ext self ''zone_room'';
          exit_tags = (if py_truth exit_tags then make_iter exit_tags else []);
          exits = collect_exits ext exit_tags [];
          cmdset' = CmdSet (Some (dbref self))
      in add_exits ext self exits cmdset')"

text \<open>
  The transient state of a room: \<open>self.ndb.zone_cmdset\<close> (an unset \<open>ndb\<close> attribute
  reads as \<open>None\<close>), the stack of the room's command set handler \<open>self.cmdset\<close>, the
  allocator of object identities and the number of times \<open>zone_exit_commandset\<close> has
  run. An aggregate is stored with its identity.

  Modelled from the spec: the handler behind \<open>self.cmdset\<close> is not in the source file;
  it is the dispatch table that supports add and remove, \<open>add\<close> registering the
  bundle after those already there and \<open>remove\<close> dropping that bundle.
\<close>

record room_state =
  ndb_zone_cmdset :: "(nat \<times> zone_cmdset) option"
  cmdset_stack :: "(nat \<times> zone_cmdset) list"
  next_id :: nat
  zone_builds :: nat

definition reset_zone_cmdset :: "room_state \<Rightarrow> room_state" where
  "reset_zone_cmdset st =
     (case ndb_zone_cmdset st of
        Some obj \<Rightarrow>
          st\<lparr>cmdset_stack := filter (\<lambda>c. fst c \<noteq> fst obj) (cmdset_stack st),
             ndb_zone_cmdset := None\<rparr>
      | None \<Rightarrow> st)"

definition at_cmdset_get :: "externals \<Rightarrow> entity \<Rightarrow> room_state \<Rightarrow> room_state" where
  "at_cmdset_get ext self st =
     (case ndb_zone_cmdset st of
        None \<Rightarrow>
          (let obj = (next_id st, zone_exit_commandset ext self);
               st = st\<lparr>next_id := Suc (next_id st), zone_builds := Suc (zone_builds st)\<rparr>;
               st = st\<lparr>ndb_zone_cmdset := Some obj\<rparr>
           in st\<lparr>cmdset_stack := cmdset_stack st @ [obj]\<rparr>)
      | Some obj \<Rightarrow> st)"

section \<open>The specification's reading of the zone aggregate\<close>

text \<open>The tags a lookup result stands for.\<close>

fun tags_of :: "tagval \<Rightarrow> string list" where
  "tags_of TagNone = []"
| "tags_of (TagStr s) = [s]"
| "tags_of (TagList l) = l"

text \<open>
  The aggregate as the specification words it: for each tag of the container under
  category \<open>zone_room\<close>, for each object the tag index finds under category
  \<open>zone_exit\<close> with that tag value, if the object has a destination and supports
  capability building, the result of \<open>create_exit_cmdset(object, location=container)\<close>
  is merged into one command set made for the container.
\<close>

definition zone_aggregate_spec :: "externals \<Rightarrow> entity \<Rightarrow> zone_cmdset" where
  "zone_aggregate_spec ext container =
     (CmdSet (Some (dbref container)))
       \<lparr>added := [create_exit_cmdset ext obj obj (Some (dbref container)).
                   tag \<leftarrow> tags_of (tags_get ext container ''zone_room''),
                   obj \<leftarrow> search_object_by_tag ext ''zone_exit'' tag,
                   db_destination obj \<noteq> None \<and> has_create_exit_cmdset obj]\<rparr>"

section \<open>Sequences of calls on one room\<close>

text \<open>
  The two entry points of the zone cache, called in any order; the collaborators may
  answer differently at each \<open>at_cmdset_get\<close>.
\<close>

datatype room_call = CmdsetGet externals | ResetZone

fun run_call :: "entity \<Rightarrow> room_call \<Rightarrow> room_state \<Rightarrow> room_state" where
  "run_call self (CmdsetGet ext) st = at_cmdset_get ext self st"
| "run_call self ResetZone st = reset_zone_cmdset st"

fun run_calls :: "entity \<Rightarrow> room_call list \<Rightarrow> room_state \<Rightarrow> room_state" where
  "run_calls self [] st = st"
| "run_calls self (c # cs) st = run_calls self cs (run_call self c st)"

fun is_reset :: "room_call \<Rightarrow> bool" where
  "is_reset ResetZone = True"
| "is_reset (CmdsetGet ext) = False"

section \<open>Example objects\<close>

definition example_exit :: entity where
  "example_exit = \<lparr>dbref = 1, db_key = map of_char '' North '', aliases = [''n''],
     locks = ''traverse:all()'', db_destination = Some 2, location = Some 3, owner = None,
     db_desc = None, has_player = False, wizdb_exit_priority = None,
     has_create_exit_cmdset = True\<rparr>"

definition example_room :: entity where
  "example_room = \<lparr>dbref = 3, db_key = map of_char ''Hall'', aliases = [], locks = [],
     db_destination = None, location = None, owner = Some 7, db_desc = None,
     has_player = False, wizdb_exit_priority = None, has_create_exit_cmdset = False\<rparr>"

definition example_player :: entity where
  "example_player = \<lparr>dbref = 7, db_key = map of_char ''Bob'', aliases = [], locks = [],
     db_destination = None, location = Some 3, owner = None, db_desc = None,
     has_player = True, wizdb_exit_priority = None, has_create_exit_cmdset = False\<rparr>"

text \<open>
  The character database on the first 256 code points: the whitespace characters there
  are 9 to 13, 28 to 32, 133 and 160; the capitals are 65 to 90 and 192 to 222 without
  215, each 32 below its lowercase.
\<close>

definition latin1_isspace :: "codepoint \<Rightarrow> bool" where
  "latin1_isspace n = ((9 \<le> n \<and> n \<le> 13) \<or> (28 \<le> n \<and> n \<le> 32) \<or> n = 133 \<or> n = 160)"

definition latin1_tolower :: "codepoint \<Rightarrow> codepoint" where
  "latin1_tolower n =
     (if (65 \<le> n \<and> n \<le> 90) \<or> (192 \<le> n \<and> n \<le> 222 \<and> n \<noteq> 215) then n + 32 else n)"

text \<open>
  Collaborators that deny every lock check, evaluate a template to its own text, show
  every object under its key, and index \<open>example_exit\<close> and \<open>example_room\<close> under the
  zone tag \<open>alpha\<close>, which every room carries.
\<close>

definition example_world :: externals where
  "example_world = \<lparr>collab_check = (\<lambda>actor target lock_names. False),
     evtemplate = (\<lambda>call. evt_text call),
     access = (\<lambda>con looker access_type. True),
     get_display_name = (\<lambda>obj looker. map char_of (db_key obj)),
     contents_of = (\<lambda>obj. []),
     tags_get = (\<lambda>obj category. if category = ''zone_room'' then TagList [''alpha''] else TagNone),
     search_object_by_tag = (\<lambda>category tag.
        if category = ''zone_exit'' \<and> tag = ''alpha''
        then [example_exit, example_room] else []),
     isspace = latin1_isspace,
     tolower = latin1_tolower\<rparr>"

text \<open>
  An evaluator whose text tells under whose authority it ran, and two exits whose keys
  are \<open>CAF\<close> and a capital E with acute accent after the separator U+001C, and
  \<open>caf\<close> and a small e with acute accent before a space and a no-break space.
\<close>

definition authority_evaluator :: "evt_call \<Rightarrow> string" where
  "authority_evaluator call =
     (if evt_run_as call = Some 7 then ''run as the owner'' else ''run as another'')"

definition cafe_exit_upper :: entity where
  "cafe_exit_upper = example_exit\<lparr>db_key := [28, 67, 65, 70, 201]\<rparr>"

definition cafe_exit_lower :: entity where
  "cafe_exit_lower = example_exit\<lparr>db_key := [99, 97, 102, 233, 32, 160]\<rparr>"

definition fresh_room_state :: room_state where
  "fresh_room_state = \<lparr>ndb_zone_cmdset = None, cmdset_stack = [], next_id = 0, zone_builds = 0\<rparr>"

definition empty_object :: pyobject where
  "empty_object = \<lparr>attrs = Map.empty, holders = []\<rparr>"

section \<open>The exit command set\<close>

lemma created_cmdset:
  "create_exit_cmdset ext self x loc = Some cs \<Longrightarrow>
     cs = \<lparr>cmdsetobj = None, key = Assigned ''ExitCmdSet'',
           priority = Assigned (if wizdb_exit_priority self \<noteq> None
                                then Some CollabExit_priority else wizdb_exit_priority self),
           duplicates = Assigned True,
           added = [\<lparr>cmd_key = py_lower (tolower ext) (py_strip (isspace ext) (db_key x)),
                      cmd_aliases = aliases x,
                      cmd_locks = locks x, cmd_auto_help = False,
                      cmd_destination = db_destination x, cmd_arg_regex = ''^$'',
                      cmd_is_exit = True, cmd_obj = dbref x\<rparr>]\<rparr>"
  by (auto simp: create_exit_cmdset_def CmdSet_def cmdset_add_def Let_def split: if_splits)

lemma unowned_creates:
  "owner self = None \<Longrightarrow> create_exit_cmdset ext self x loc \<noteq> None"
  by (simp add: create_exit_cmdset_def Let_def)

text \<open>
  C1. The claim: the command set of an exit that passes the \<open>open_exit\<close> gate has the
  priority \<open>wizdb.exit_priority\<close> when that override is set, and the class default
  \<open>-30\<close> when it is not. The source tests \<open>is not None\<close> and then takes the other
  value in each branch: for the unowned exit with the override set to \<open>5\<close> the
  priority is \<open>-30\<close>, and with no override it is \<open>None\<close>.
\<close>

theorem exit_priority_transposed:
  "map_option priority
     (create_exit_cmdset example_world (example_exit\<lparr>wizdb_exit_priority := Some 5\<rparr>)
        (example_exit\<lparr>wizdb_exit_priority := Some 5\<rparr>) None)
     = Some (Assigned (Some (- 30)))
   \<and> map_option priority (create_exit_cmdset example_world example_exit example_exit None)
     = Some (Assigned None)"
  by (simp add: create_exit_cmdset_def example_exit_def Let_def CmdSet_def cmdset_add_def
      CollabExit_priority_def)

text \<open>
  C3. If the exit has an owner and \<open>collab_check(owner, location, ['open_exit'])\<close>
  denies, where \<open>location\<close> is the argument or else the exit's own location,
  \<open>create_exit_cmdset\<close> returns \<open>None\<close>. If the exit has no owner, a command set
  is returned, and it is the same whatever \<open>collab_check\<close> would answer: the check is
  not consulted.
\<close>

theorem open_exit_gate:
  "(owner self = Some owner' \<and>
      \<not> collab_check ext owner' (case loc of Some l \<Rightarrow> Some l | None \<Rightarrow> location self)
          [''open_exit'']
      \<longrightarrow> create_exit_cmdset ext self exidbobj loc = None)
   \<and> (owner self = None
      \<longrightarrow> create_exit_cmdset ext self exidbobj loc \<noteq> None
          \<and> create_exit_cmdset (ext\<lparr>collab_check := check'\<rparr>) self exidbobj loc
              = create_exit_cmdset ext self exidbobj loc)"
  by (simp add: create_exit_cmdset_def Let_def)

theorem open_exit_gate_witness:
  "owner (example_exit\<lparr>owner := Some 7\<rparr>) = Some 7
   \<and> \<not> collab_check example_world 7 (location (example_exit\<lparr>owner := Some 7\<rparr>)) [''open_exit'']
   \<and> create_exit_cmdset example_world (example_exit\<lparr>owner := Some 7\<rparr>) example_exit None = None
   \<and> owner example_exit = None
   \<and> create_exit_cmdset example_world example_exit example_exit None \<noteq> None
   \<and> create_exit_cmdset (example_world\<lparr>collab_check := (\<lambda>a t l. True)\<rparr>) example_exit
        example_exit None
      = create_exit_cmdset example_world example_exit example_exit None"
  using open_exit_gate [of "example_exit\<lparr>owner := Some 7\<rparr>" 7 example_world None example_exit
      "\<lambda>a t l. True"]
    open_exit_gate [of example_exit 7 example_world None example_exit "\<lambda>a t l. True"]
  by (simp add: example_exit_def example_world_def)

subsection \<open>The key of the movement command\<close>

lemma dropWhile_all: "list_all P l \<Longrightarrow> dropWhile P (l @ s) = dropWhile P s"
  by (induction l) simp_all

lemma py_strip_left: "list_all P l \<Longrightarrow> py_strip P (l @ s) = py_strip P s"
  by (simp add: py_strip_def dropWhile_all)

lemma py_strip_right: "list_all P r \<Longrightarrow> py_strip P (s @ r) = py_strip P s"
proof (induction s)
  case Nil
  have "dropWhile P r = []"
    using Nil.prems by (simp add: dropWhile_eq_Nil_conv list_all_iff)
  then show ?case by (simp add: py_strip_def del: dropWhile_eq_Nil_conv)
next
  case (Cons c s)
  show ?case
  proof (cases "P c")
    case True
    with Cons show ?thesis by (simp add: py_strip_def)
  next
    case False
    have "list_all P (rev r)" using Cons.prems by (simp add: list_all_iff)
    then have "dropWhile P (rev r @ rev (c # s)) = dropWhile P (rev (c # s))"
      by (rule dropWhile_all)
    with False show ?thesis by (simp add: py_strip_def)
  qed
qed

lemma py_strip_pad:
  "list_all P l \<Longrightarrow> list_all P r \<Longrightarrow> py_strip P (l @ k @ r) = py_strip P k"
  by (simp add: py_strip_left py_strip_right)

text \<open>
  C9. The command set built for \<open>exidbobj\<close> holds one command, keyed by
  \<open>db_key.strip().lower()\<close>: the stored key without its surrounding whitespace, every
  character lowered, for whatever characters the interpreter counts as whitespace and
  whatever lowercase it gives each character. Two exits whose stored keys are texts
  without surrounding whitespace that are equal once lowered (they differ only in
  case), each padded on either side with whitespace, get commands with the same key.
\<close>

theorem exit_command_key_normalized:
  assumes "create_exit_cmdset ext self1 x1 loc1 = Some cs1"
    and "create_exit_cmdset ext self2 x2 loc2 = Some cs2"
    and "db_key x1 = l1 @ k1 @ r1" and "db_key x2 = l2 @ k2 @ r2"
    and "list_all (isspace ext) (l1 @ r1 @ l2 @ r2)"
    and "py_strip (isspace ext) k1 = k1" and "py_strip (isspace ext) k2 = k2"
    and "py_lower (tolower ext) k1 = py_lower (tolower ext) k2"
  shows "map cmd_key (added cs1) = [py_lower (tolower ext) (py_strip (isspace ext) (db_key x1))]
         \<and> map cmd_key (added cs1) = [map (tolower ext) k1]
         \<and> map cmd_key (added cs2) = map cmd_key (added cs1)"
proof -
  have a1: "map cmd_key (added cs1) = [py_lower (tolower ext) (py_strip (isspace ext) (db_key x1))]"
    using created_cmdset [OF assms(1)] by simp
  have a2: "map cmd_key (added cs2) = [py_lower (tolower ext) (py_strip (isspace ext) (db_key x2))]"
    using created_cmdset [OF assms(2)] by simp
  have s1: "py_strip (isspace ext) (db_key x1) = k1"
    using assms(3,5,6) by (simp add: py_strip_pad)
  have s2: "py_strip (isspace ext) (db_key x2) = k2"
    using assms(4,5,7) by (simp add: py_strip_pad)
  from a1 a2 s1 s2 assms(8) show ?thesis by (simp add: py_lower_def)
qed

theorem exit_command_key_normalized_witness:
  "create_exit_cmdset example_world cafe_exit_upper cafe_exit_upper None
     = Some (the (create_exit_cmdset example_world cafe_exit_upper cafe_exit_upper None))
   \<and> create_exit_cmdset example_world cafe_exit_lower cafe_exit_lower None
     = Some (the (create_exit_cmdset example_world cafe_exit_lower cafe_exit_lower None))
   \<and> db_key cafe_exit_upper = [28] @ [67, 65, 70, 201] @ []
   \<and> db_key cafe_exit_lower = [] @ [99, 97, 102, 233] @ [32, 160]
   \<and> list_all (isspace example_world) ([28] @ [] @ [] @ [32, 160])
   \<and> py_strip (isspace example_world) [67, 65, 70, 201] = [67, 65, 70, 201]
   \<and> py_strip (isspace example_world) [99, 97, 102, 233] = [99, 97, 102, 233]
   \<and> py_lower (tolower example_world) [67, 65, 70, 201]
       = py_lower (tolower example_world) [99, 97, 102, 233]
   \<and> map cmd_key
        (added (the (create_exit_cmdset example_world cafe_exit_upper cafe_exit_upper None)))
       = [[99, 97, 102, 233]]
   \<and> map cmd_key
        (added (the (create_exit_cmdset example_world cafe_exit_lower cafe_exit_lower None)))
       = [[99, 97, 102, 233]]"
proof -
  have own: "owner cafe_exit_upper = None" "owner cafe_exit_lower = None"
    by (simp_all add: cafe_exit_upper_def cafe_exit_lower_def example_exit_def)
  have c1: "create_exit_cmdset example_world cafe_exit_upper cafe_exit_upper None
     = Some (the (create_exit_cmdset example_world cafe_exit_upper cafe_exit_upper None))"
    using unowned_creates [OF own(1)] by auto
  have c2: "create_exit_cmdset example_world cafe_exit_lower cafe_exit_lower None
     = Some (the (create_exit_cmdset example_world cafe_exit_lower cafe_exit_lower None))"
    using unowned_creates [OF own(2)] by auto
  have k1: "db_key cafe_exit_upper = [28] @ [67, 65, 70, 201] @ []"
    by (simp add: cafe_exit_upper_def)
  have k2: "db_key cafe_exit_lower = [] @ [99, 97, 102, 233] @ [32, 160]"
    by (simp add: cafe_exit_lower_def)
  have ws: "list_all (isspace example_world) ([28] @ [] @ [] @ [32, 160])"
    by (simp add: example_world_def latin1_isspace_def)
  have p1: "py_strip (isspace example_world) [67, 65, 70, 201] = [67, 65, 70, 201]"
    by (simp add: example_world_def latin1_isspace_def py_strip_def)
  have p2: "py_strip (isspace example_world) [99, 97, 102, 233] = [99, 97, 102, 233]"
    by (simp add: example_world_def latin1_isspace_def py_strip_def)
  have lo: "py_lower (tolower example_world) [67, 65, 70, 201]
       = py_lower (tolower example_world) [99, 97, 102, 233]"
    by (simp add: example_world_def latin1_tolower_def py_lower_def)
  have ev: "map (tolower example_world) [67, 65, 70, 201] = [99, 97, 102, 233]"
    by (simp add: example_world_def latin1_tolower_def)
  from exit_command_key_normalized [OF c1 c2 k1 k2 ws p1 p2 lo]
  have r1: "map cmd_key
        (added (the (create_exit_cmdset example_world cafe_exit_upper cafe_exit_upper None)))
       = [map (tolower example_world) [67, 65, 70, 201]]"
    and r2: "map cmd_key
        (added (the (create_exit_cmdset example_world cafe_exit_lower cafe_exit_lower None)))
       = map cmd_key
           (added (the (create_exit_cmdset example_world cafe_exit_upper cafe_exit_upper None)))"
    by blast+
  from r1 ev have r1': "map cmd_key
        (added (the (create_exit_cmdset example_world cafe_exit_upper cafe_exit_upper None)))
       = [[99, 97, 102, 233]]"
    by simp
  from r2 r1' have r2': "map cmd_key
        (added (the (create_exit_cmdset example_world cafe_exit_lower cafe_exit_lower None)))
       = [[99, 97, 102, 233]]"
    by simp
  from c1 c2 k1 k2 ws p1 p2 lo r1' r2' show ?thesis by blast
qed

section \<open>The appearance of a container\<close>

lemma example_chars:
  "char_of (32::nat) = CHR '' ''" "char_of (66::nat) = CHR ''B''" "char_of (72::nat) = CHR ''H''"
  "char_of (78::nat) = CHR ''N''" "char_of (97::nat) = CHR ''a''" "char_of (98::nat) = CHR ''b''"
  "char_of (104::nat) = CHR ''h''" "char_of (108::nat) = CHR ''l''" "char_of (111::nat) = CHR ''o''"
  "char_of (114::nat) = CHR ''r''" "char_of (116::nat) = CHR ''t''"
  by code_simp+

lemma classify_acc:
  "classify ext looker cons (exits, users, things) =
     (exits @ map (\<lambda>c. get_display_name ext c looker) (filter (\<lambda>c. db_destination c \<noteq> None) cons),
      users @ map (\<lambda>c. ''{c'' @ get_display_name ext c looker @ ''{n'')
                (filter (\<lambda>c. db_destination c = None \<and> has_player c) cons),
      things @ map (\<lambda>c. get_display_name ext c looker)
                (filter (\<lambda>c. db_destination c = None \<and> \<not> has_player c) cons))"
  by (induction cons arbitrary: exits users things) (simp_all add: Let_def)

text \<open>
  C10. The loop sorts the visible items by destination first: the exits are all items
  with a destination, whether or not a player controls them; the animate occupants are
  the items without a destination that have a player; the rest are things.
\<close>

theorem classify_destination_first:
  "classify ext looker cons ([], [], []) =
     (map (\<lambda>c. get_display_name ext c looker) (filter (\<lambda>c. db_destination c \<noteq> None) cons),
      map (\<lambda>c. ''{c'' @ get_display_name ext c looker @ ''{n'')
        (filter (\<lambda>c. db_destination c = None \<and> has_player c) cons),
      map (\<lambda>c. get_display_name ext c looker)
        (filter (\<lambda>c. db_destination c = None \<and> \<not> has_player c) cons))"
  by (simp add: classify_acc)

theorem classify_destination_first_witness:
  "classify example_world example_player
     [example_exit\<lparr>has_player := True\<rparr>, example_player\<lparr>dbref := 8\<rparr>, example_room] ([], [], [])
     = (['' North ''], [''{cBob{n''], [''Hall''])"
  using classify_destination_first [of example_world example_player
      "[example_exit\<lparr>has_player := True\<rparr>, example_player\<lparr>dbref := 8\<rparr>, example_room]"]
  by (simp add: example_world_def example_exit_def example_player_def example_room_def
      example_chars)

lemma classify_evtemplate_update:
  "classify (ext\<lparr>evtemplate := f\<rparr>) looker cons acc = classify ext looker cons acc"
  by (cases acc) (simp add: classify_acc)

text \<open>
  C6. For a looker that is not \<open>None\<close>, \<open>return_appearance\<close> calls the template
  evaluator once, on the description text (or the empty string) with \<open>run_as\<close> the
  container's owner, \<open>me\<close> the looker, \<open>this\<close> the container and \<open>how\<close> the
  string \<open>desc\<close>, and the text it returns there is what follows the header in the
  result. The evaluator is consulted nowhere else: replacing it by any evaluator that
  agrees with it on this one call, whatever it returns on a call run as the looker or
  as anyone else, gives the same result. \<open>run_as\<close> is the same for any two lookers.
\<close>

theorem evtemplate_runs_as_owner:
  "(let call = \<lparr>evt_text = (case db_desc self of None \<Rightarrow> [] | Some d \<Rightarrow> d),
                evt_run_as = owner self, evt_me = looker, evt_this = self,
                evt_how = ''desc''\<rparr>;
        (exits, users, things) =
          classify ext looker (visible_contents ext self looker) ([], [], [])
    in return_appearance ext self (Some looker) =
         (Some (''{c'' @ get_display_name ext self looker @ ''{n'' @ [CHR 0x0A]
                @ evtemplate ext call
                @ (if exits \<noteq> []
                   then [CHR 0x0A] @ ''{wExits:{n '' @ py_join '', '' exits else [])
                @ (if users \<noteq> [] \<or> things \<noteq> []
                   then [CHR 0x0A] @ ''{wYou see:{n '' @ py_join '', '' (users @ things)
                   else [])),
          [call])
       \<and> (f call = evtemplate ext call \<longrightarrow>
            return_appearance (ext\<lparr>evtemplate := f\<rparr>) self (Some looker)
              = return_appearance ext self (Some looker)))
   \<and> map evt_run_as (snd (return_appearance ext self (Some looker'))) =
       map evt_run_as (snd (return_appearance ext self (Some looker)))"
  by (simp add: return_appearance_def call_evtemplate_def desc_call_def visible_contents_def
      classify_evtemplate_update Let_def split: prod.splits)

theorem evtemplate_runs_as_owner_witness:
  "return_appearance (example_world\<lparr>evtemplate := authority_evaluator\<rparr>) example_room
     (Some example_exit)
     = (Some (''{cHall{n'' @ [CHR 0x0A] @ ''run as the owner''),
        [\<lparr>evt_text = [], evt_run_as = Some 7, evt_me = example_exit, evt_this = example_room,
          evt_how = ''desc''\<rparr>])
   \<and> return_appearance (example_world\<lparr>evtemplate := (\<lambda>call. ''run as the owner'')\<rparr>)
       example_room (Some example_exit)
     = return_appearance (example_world\<lparr>evtemplate := authority_evaluator\<rparr>) example_room
         (Some example_exit)
   \<and> map evt_run_as (snd (return_appearance (example_world\<lparr>evtemplate := authority_evaluator\<rparr>)
                            example_room (Some example_player)))
     = map evt_run_as (snd (return_appearance (example_world\<lparr>evtemplate := authority_evaluator\<rparr>)
                              example_room (Some example_exit)))"
  using evtemplate_runs_as_owner [of example_room example_exit
      "example_world\<lparr>evtemplate := authority_evaluator\<rparr>" "\<lambda>call. ''run as the owner''"
      example_player]
  by (simp add: example_world_def example_room_def authority_evaluator_def
      visible_contents_def example_chars Let_def)

text \<open>
  C7. For a container with no contents whose description evaluates to the empty string,
  \<open>return_appearance\<close> with a looker returns exactly the header line: the display name
  between the colour codes, and a line feed.
\<close>

theorem empty_room_header_only:
  assumes "contents_of ext self = []"
    and "evtemplate ext (desc_call self looker) = []"
  shows "fst (return_appearance ext self (Some looker)) =
           Some (''{c'' @ get_display_name ext self looker @ ''{n'' @ [CHR 0x0A])"
  using assms
  by (simp add: return_appearance_def call_evtemplate_def visible_contents_def Let_def)

theorem empty_room_header_only_witness:
  "contents_of example_world example_room = []
   \<and> evtemplate example_world (desc_call example_room example_player) = []
   \<and> fst (return_appearance example_world example_room (Some example_player))
       = Some (''{cHall{n'' @ [CHR 0x0A])"
proof -
  have c: "contents_of example_world example_room = []" by (simp add: example_world_def)
  have e: "evtemplate example_world (desc_call example_room example_player) = []"
    by (simp add: example_world_def desc_call_def example_room_def)
  have n: "get_display_name example_world example_room example_player = ''Hall''"
    by (simp add: example_world_def example_room_def example_chars)
  from empty_room_header_only [OF c e] c e n show ?thesis by simp
qed

section \<open>The namespace handles\<close>

lemma CollabBase_properties_eq:
  "CollabBase_properties =
     map (\<lambda>k. (k @ ''db'', \<lparr>fget = getter k (k @ ''attributes''), fset = setter (k @ ''db''),
                             fdel = deleter (k @ ''db'')\<rparr>)) initializers"
  by (simp add: CollabBase_properties_def make_descriptors_def Let_def)

lemma map_of_labelled:
  "k \<in> set ks \<Longrightarrow> map_of (map (\<lambda>k. (k @ suffix, g k)) ks) (k @ suffix) = Some (g k)"
  by (induction ks) auto

lemma CollabBase_property_lookup:
  "key' \<in> set initializers \<Longrightarrow>
     map_of CollabBase_properties (key' @ ''db'') =
       Some \<lparr>fget = getter key' (key' @ ''attributes''), fset = setter (key' @ ''db''),
             fdel = deleter (key' @ ''db'')\<rparr>"
  unfolding CollabBase_properties_eq by (rule map_of_labelled)

text \<open>
  Assigning to any of the six handle attributes never reaches the body of \<open>setter\<close>:
  the property passes the instance and the value, \<open>setter\<close> takes the instance only.
  Deleting one raises the exception of \<open>deleter\<close>, whose message has the label.
\<close>

lemma setter_arity_mismatch:
  "key' \<in> set initializers \<Longrightarrow>
     attr_assign self (key' @ ''db'') v =
       Inl (TypeError ''setter() takes exactly 1 argument (2 given)'')"
proof -
  have "show_nat (Suc 0) = ''1''" "show_nat (Suc (Suc 0)) = ''2''"
    by code_simp+
  then show "key' \<in> set initializers \<Longrightarrow> ?thesis"
    by (simp add: attr_assign_def CollabBase_property_lookup property_set_def py_call_def
        setter_def arity_error_def)
qed

lemma deleter_names_label:
  "key' \<in> set initializers \<Longrightarrow>
     attr_delete self (key' @ ''db'') =
       Inl (Exception (''Cannot delete the '' @ key' @ ''db'' @ '' object!''))"
  by (simp add: attr_delete_def CollabBase_property_lookup property_delete_def py_call_def
      deleter_def)

text \<open>
  C5. The claim: assigning to a namespace handle attribute, or deleting it, raises an
  exception whose message contains the namespace's label. The assignment
  \<open>obj.wizdb = 1\<close> does raise, but the exception is the \<open>TypeError\<close> of the call
  of \<open>setter\<close> with two arguments, and its message does not contain \<open>wizdb\<close>.
\<close>

theorem handle_assignment_message:
  "attr_assign empty_object ''wizdb'' (PyInt 1) =
     Inl (TypeError ''setter() takes exactly 1 argument (2 given)'')
   \<and> \<not> py_in ''wizdb'' ''setter() takes exactly 1 argument (2 given)''"
proof -
  have "''wiz'' \<in> set initializers" by (simp add: initializers_def)
  then have "attr_assign empty_object (''wiz'' @ ''db'') (PyInt 1) =
     Inl (TypeError ''setter() takes exactly 1 argument (2 given)'')"
    by (rule setter_arity_mismatch)
  moreover have "\<not> py_in ''wizdb'' ''setter() takes exactly 1 argument (2 given)''"
    by code_simp
  ultimately show ?thesis by simp
qed

lemma getter_call:
  "py_call (getter key' name) self [] =
     (case attrs self (holder_slot key') of
        Some v \<Rightarrow> Inr (v, self)
      | None \<Rightarrow>
          Inr (PyRef (length (holders self)),
               self\<lparr>holders := holders self @
                       [\<lparr>holder_name = name, holder_manager_name = key' @ ''attributes''\<rparr>],
                    attrs := (attrs self)(holder_slot key' \<mapsto> PyRef (length (holders self)))\<rparr>))"
  by (simp add: py_call_def getter_def py_getattr_def py_setattr_def DbHolder_def
      split: option.splits)

text \<open>
  C8. For each of the six namespace tags, reading the handle attribute returns a value
  and raises nothing. The value is stored in the holder slot of the instance, and reading
  again returns the same value and leaves the instance as it is. When the slot was
  empty, the value is a newly allocated holder for that namespace; when it was filled,
  the instance is unchanged.
\<close>

theorem namespace_handle_memoized:
  assumes "key' \<in> set initializers"
  shows "\<exists>v self'. attr_read self (key' @ ''db'') = Inr (v, self')
           \<and> attrs self' (holder_slot key') = Some v
           \<and> attr_read self' (key' @ ''db'') = Inr (v, self')
           \<and> (attrs self (holder_slot key') = None \<longrightarrow>
                v = PyRef (length (holders self))
                \<and> holders self' = holders self @
                     [\<lparr>holder_name = key' @ ''attributes'',
                       holder_manager_name = key' @ ''attributes''\<rparr>])
           \<and> (attrs self (holder_slot key') \<noteq> None \<longrightarrow> self' = self)"
proof -
  have rd: "\<And>s. attr_read s (key' @ ''db'') = py_call (getter key' (key' @ ''attributes'')) s []"
    using assms by (simp add: attr_read_def CollabBase_property_lookup property_get_def)
  show ?thesis
  proof (cases "attrs self (holder_slot key')")
    case None
    then show ?thesis by (simp add: rd getter_call)
  next
    case (Some v)
    then show ?thesis by (simp add: rd getter_call)
  qed
qed

theorem namespace_handle_memoized_witness:
  "''wiz'' \<in> set initializers
   \<and> (\<exists>self'. attr_read empty_object ''wizdb'' = Inr (PyRef 0, self')
         \<and> attrs self' ''_wiz_holder'' = Some (PyRef 0)
         \<and> attr_read self' ''wizdb'' = Inr (PyRef 0, self')
         \<and> holders self' = [\<lparr>holder_name = ''wizattributes'',
                                holder_manager_name = ''wizattributes''\<rparr>])"
proof -
  have i: "''wiz'' \<in> set initializers" by (simp add: initializers_def)
  from namespace_handle_memoized [OF i, of empty_object] i show ?thesis
    by (auto simp add: empty_object_def holder_slot_def)
qed

section \<open>The zone aggregate and its cache\<close>

lemma collect_exits_concat:
  "collect_exits ext tags exits =
     exits @ concat (map (search_object_by_tag ext ''zone_exit'') tags)"
  by (induction tags arbitrary: exits) simp_all

lemma add_exits_added:
  "add_exits ext self exits cs =
     cs\<lparr>added := added cs @
           map (\<lambda>e. create_exit_cmdset ext e e (Some (dbref self)))
             (filter (\<lambda>e. db_destination e \<noteq> None \<and> has_create_exit_cmdset e) exits)\<rparr>"
  by (induction exits arbitrary: cs) (simp_all add: cmdset_add_def)

lemma guarded_singletons:
  "concat (map (\<lambda>obj. if P obj then [f obj] else []) xs) = map f (filter P xs)"
  by (induction xs) simp_all

lemma comprehension_as_map:
  "[f obj. tag \<leftarrow> tags, obj \<leftarrow> g tag, P obj] = map f (filter P (concat (map g tags)))"
  by (induction tags) (simp_all add: guarded_singletons)

text \<open>
  C4. The aggregate built by \<open>zone_exit_commandset\<close> is the one the specification
  describes: a command set made for the container, to which were added, in order, the
  results of \<open>create_exit_cmdset(object, location=container)\<close> for each \<open>zone_room\<close>
  tag of the container and each object indexed under \<open>zone_exit\<close> with that tag that
  has a destination and supports capability building, and nothing else. The tag lookup
  may hand back nothing, a list of tags or one bare tag; a bare tag is a nonempty
  string.
\<close>

theorem zone_exit_commandset_contents:
  assumes "tags_get ext self ''zone_room'' \<noteq> TagStr []"
  shows "zone_exit_commandset ext self = zone_aggregate_spec ext self"
proof -
  have "(if py_truth (tags_get ext self ''zone_room'')
         then make_iter (tags_get ext self ''zone_room'') else [])
        = tags_of (tags_get ext self ''zone_room'')"
    using assms by (cases "tags_get ext self ''zone_room''") auto
  then show ?thesis
    by (simp add: zone_exit_commandset_def zone_aggregate_spec_def Let_def collect_exits_concat
        add_exits_added comprehension_as_map CmdSet_def)
qed

theorem zone_exit_commandset_contents_witness:
  "tags_get example_world example_room ''zone_room'' \<noteq> TagStr []
   \<and> zone_exit_commandset example_world example_room
       = zone_aggregate_spec example_world example_room
   \<and> added (zone_aggregate_spec example_world example_room)
       = [create_exit_cmdset example_world example_exit example_exit (Some 3)]"
proof -
  have t: "tags_get example_world example_room ''zone_room'' \<noteq> TagStr []"
    by (simp add: example_world_def)
  have a: "added (zone_aggregate_spec example_world example_room)
       = [create_exit_cmdset example_world example_exit example_exit (Some 3)]"
    by (simp add: zone_aggregate_spec_def example_world_def example_room_def example_exit_def)
  from zone_exit_commandset_contents [OF t] t a show ?thesis by simp
qed

lemma at_cmdset_get_cached_after: "ndb_zone_cmdset (at_cmdset_get ext self st) \<noteq> None"
  by (simp add: at_cmdset_get_def Let_def split: option.splits)

lemma at_cmdset_get_hit: "ndb_zone_cmdset st \<noteq> None \<Longrightarrow> at_cmdset_get ext self st = st"
  by (auto simp: at_cmdset_get_def)

lemma at_cmdset_get_builds:
  "zone_builds (at_cmdset_get ext self st) =
     (if ndb_zone_cmdset st = None then Suc (zone_builds st) else zone_builds st)"
  by (simp add: at_cmdset_get_def Let_def split: option.splits)

lemma reset_builds: "zone_builds (reset_zone_cmdset st) = zone_builds st"
  by (simp add: reset_zone_cmdset_def split: option.splits)

lemma run_calls_builds:
  "zone_builds (run_calls self cs st) + (if ndb_zone_cmdset st = None then 0 else 1)
     \<le> zone_builds st + Suc (length (filter is_reset cs))"
proof (induction cs arbitrary: st)
  case Nil
  then show ?case by simp
next
  case (Cons c cs)
  show ?case
  proof (cases c)
    case (CmdsetGet ext)
    have "ndb_zone_cmdset (at_cmdset_get ext self st) \<noteq> None"
      by (rule at_cmdset_get_cached_after)
    with Cons.IH [of "at_cmdset_get ext self st"] CmdsetGet show ?thesis
      by (simp add: at_cmdset_get_builds split: if_splits)
  next
    case ResetZone
    with Cons.IH [of "reset_zone_cmdset st"] show ?thesis
      by (simp add: reset_builds split: if_splits)
  qed
qed

lemma run_gets_same:
  "ndb_zone_cmdset st \<noteq> None \<Longrightarrow> list_all (\<lambda>c. \<not> is_reset c) cs \<Longrightarrow> run_calls self cs st = st"
proof (induction cs arbitrary: st)
  case Nil
  then show ?case by simp
next
  case (Cons c cs)
  then show ?case by (cases c) (simp_all add: at_cmdset_get_hit)
qed

text \<open>
  C2. A second \<open>at_cmdset_get\<close> on a room changes nothing: the cached aggregate, its
  identity, the handler's stack and the number of runs of \<open>zone_exit_commandset\<close> are
  those left by the first call, whatever the collaborators answer the second time. The
  same holds after any further calls of \<open>at_cmdset_get\<close> with no reset among them. Over
  any sequence of calls, \<open>zone_exit_commandset\<close> runs at most once more than the
  number of resets.
\<close>

theorem zone_cmdset_built_once:
  "at_cmdset_get ext2 self (at_cmdset_get ext1 self st) = at_cmdset_get ext1 self st
   \<and> ndb_zone_cmdset (at_cmdset_get ext1 self st) \<noteq> None
   \<and> (list_all (\<lambda>c. \<not> is_reset c) cs \<longrightarrow>
        run_calls self (CmdsetGet ext1 # cs) st = at_cmdset_get ext1 self st)
   \<and> zone_builds (run_calls self cs st) \<le> zone_builds st + Suc (length (filter is_reset cs))"
proof -
  have a: "ndb_zone_cmdset (at_cmdset_get ext1 self st) \<noteq> None"
    by (rule at_cmdset_get_cached_after)
  have b: "at_cmdset_get ext2 self (at_cmdset_get ext1 self st) = at_cmdset_get ext1 self st"
    using a by (rule at_cmdset_get_hit)
  have c: "list_all (\<lambda>c. \<not> is_reset c) cs \<longrightarrow>
        run_calls self (CmdsetGet ext1 # cs) st = at_cmdset_get ext1 self st"
    using a by (simp add: run_gets_same)
  have d: "zone_builds (run_calls self cs st) \<le> zone_builds st + Suc (length (filter is_reset cs))"
    using run_calls_builds [of self cs st] by (simp split: if_splits)
  from a b c d show ?thesis by blast
qed

theorem zone_cmdset_built_once_witness:
  "list_all (\<lambda>c. \<not> is_reset c) [CmdsetGet example_world]
   \<and> run_calls example_room [CmdsetGet example_world, CmdsetGet example_world] fresh_room_state
       = at_cmdset_get example_world example_room fresh_room_state
   \<and> zone_builds (at_cmdset_get example_world example_room fresh_room_state) = 1"
  using zone_cmdset_built_once [of example_world example_room example_world fresh_room_state
      "[CmdsetGet example_world]"]
  by (simp add: at_cmdset_get_builds fresh_room_state_def)

end
